theory Spec2Isabelle
  imports Main
begin

section \<open>Python values used by \<open>app.py\<close>\<close>

text \<open>
  Exceptions are values. Only subclasses of Python's \<open>Exception\<close> are modelled: they are
  what the handlers \<open>except Exception\<close> of the source catch. \<open>ExternalError\<close> stands for
  whatever an external collaborator (the detection model, OpenCV, the upload storage)
  raises, with its message.
\<close>

datatype exn =
    KeyError string
  | IndexError
  | TypeError string
  | ExternalError string

text \<open>
  \<open>repr(k)\<close> of a string of characters below 256. The quote is the single quote, unless
  the string has a single quote and no double quote. The quote and the backslash are
  escaped by a backslash; tab, newline and carriage return are written \<open>\t\<close>, \<open>\n\<close>,
  \<open>\r\<close>; every other character that is not printable (below \<open>0x20\<close>, \<open>0x7F\<close> to
  \<open>0xA0\<close>, and \<open>0xAD\<close>) is written \<open>\xNN\<close> with two lower-case hexadecimal digits.
\<close>

definition hex2 :: "nat \<Rightarrow> string" where
  "hex2 n = [''0123456789abcdef'' ! (n div 16 mod 16), ''0123456789abcdef'' ! (n mod 16)]"

definition repr_char :: "char \<Rightarrow> char \<Rightarrow> string" where
  "repr_char quote c =
     (let n = (of_char c :: nat)
      in if c = quote \<or> c = CHR 0x5C then [CHR 0x5C, c]
         else if n = 9 then [CHR 0x5C, CHR ''t'']
         else if n = 10 then [CHR 0x5C, CHR ''n'']
         else if n = 13 then [CHR 0x5C, CHR ''r'']
         else if n < 32 \<or> (127 \<le> n \<and> n \<le> 160) \<or> n = 173
              then [CHR 0x5C, CHR ''x''] @ hex2 n
         else [c])"

definition repr_str :: "string \<Rightarrow> string" where
  "repr_str k =
     (let quote = (if CHR 0x27 \<in> set k \<and> CHR 0x22 \<notin> set k then CHR 0x22 else CHR 0x27)
      in [quote] @ concat (map (repr_char quote) k) @ [quote])"

text \<open>
  \<open>str(e)\<close>: the message of an exception. A \<open>KeyError\<close> prints the repr of its key, which
  is what the constructor carries: \<open>repr_str\<close> for a string key, the digits for an integer.
\<close>

fun str_exn :: "exn \<Rightarrow> string" where
  "str_exn (KeyError k) = k"
| "str_exn IndexError = ''list index out of range''"
| "str_exn (TypeError m) = m"
| "str_exn (ExternalError m) = m"

text \<open>
  Strings are lists of characters with code points below 256. \<open>str.lower()\<close> on that range
  maps \<open>A\<close>..\<open>Z\<close> and the upper-case letters of Latin-1 (\<open>0xC0\<close>..\<open>0xDE\<close> without the
  multiplication sign \<open>0xD7\<close>) to the code point 32 above, and fixes every other character.
\<close>

definition lower_char :: "char \<Rightarrow> char" where
  "lower_char c =
     (let n = (of_char c :: nat)
      in if (65 \<le> n \<and> n \<le> 90) \<or> (192 \<le> n \<and> n \<le> 222 \<and> n \<noteq> 215)
         then char_of (n + 32) else c)"

definition lower :: "string \<Rightarrow> string" where
  "lower s = map lower_char s"

text \<open>
  \<open>s.rsplit(sep, 1)\<close> for a one-character separator: at most one split, at the rightmost
  occurrence of \<open>sep\<close>; without an occurrence the result is \<open>[s]\<close>. \<open>rsplit_scan\<close> walks the
  string from its right end, collecting the characters passed so far.
\<close>

fun rsplit_scan :: "char \<Rightarrow> string \<Rightarrow> string \<Rightarrow> (string \<times> string) option" where
  "rsplit_scan sep [] acc = None"
| "rsplit_scan sep (c # rs) acc =
     (if c = sep then Some (rev rs, acc) else rsplit_scan sep rs (c # acc))"

definition rsplit1 :: "char \<Rightarrow> string \<Rightarrow> string list" where
  "rsplit1 sep s =
     (case rsplit_scan sep (rev s) [] of
        None \<Rightarrow> [s]
      | Some (before, after) \<Rightarrow> [before, after])"

text \<open>\<open>xs[i]\<close> for a non-negative index: \<open>IndexError\<close> out of range.\<close>

definition index :: "'a list \<Rightarrow> nat \<Rightarrow> exn + 'a" where
  "index xs i = (if i < length xs then Inr (xs ! i) else Inl IndexError)"

text \<open>\<open>d[k]\<close> on a dict with string keys: \<open>KeyError\<close> for a missing key.\<close>

definition getitem :: "(string \<rightharpoonup> 'v) \<Rightarrow> string \<Rightarrow> exn + 'v" where
  "getitem d k = (case d k of None \<Rightarrow> Inl (KeyError (repr_str k)) | Some v \<Rightarrow> Inr v)"

text \<open>
  \<open>str(n)\<close> for an integer, as the f-strings \<open>f"{width}x{height}"\<close> print it: decimal
  digits, most significant first, with a leading minus sign for a negative number.
\<close>

fun str_nat :: "nat \<Rightarrow> string" where
  "str_nat n =
     (if n < 10 then [''0123456789'' ! n]
      else str_nat (n div 10) @ [''0123456789'' ! (n mod 10)])"

declare str_nat.simps [simp del]

definition str_int :: "int \<Rightarrow> string" where
  "str_int i = (if i < 0 then CHR ''-'' # str_nat (nat (- i)) else str_nat (nat i))"

section \<open>Configuration\<close>

definition UPLOAD_FOLDER :: string where
  "UPLOAD_FOLDER = ''static/uploads''"

definition RESULT_FOLDER :: string where
  "RESULT_FOLDER = ''static/results''"

definition ALLOWED_EXTENSIONS :: "string \<rightharpoonup> string set" where
  "ALLOWED_EXTENSIONS =
     [''image'' \<mapsto> {''png'', ''jpg'', ''jpeg''},
      ''video'' \<mapsto> {''mp4'', ''mov'', ''avi'', ''webm''}]"

text \<open>
  \<open>os.path.join(folder, name)\<close> on POSIX: an absolute \<open>name\<close> replaces the folder; otherwise
  the two are joined by one slash (the folders of the configuration do not end in one).
\<close>

definition path_join :: "string \<Rightarrow> string \<Rightarrow> string" where
  "path_join folder name =
     (case name of
        c # _ \<Rightarrow> if c = CHR ''/'' then name else folder @ ''/'' @ name
      | [] \<Rightarrow> folder @ ''/'')"

section \<open>The file validator\<close>

text \<open>
  \<open>allowed_file(filename, mode)\<close>. The conjunction short-circuits: without a dot the result
  is \<open>False\<close> and the allow-list of the mode is never looked up. With a dot, the left
  operand of \<open>in\<close> (the lowered suffix) is evaluated before the lookup of the mode.
\<close>

definition allowed_file :: "string \<Rightarrow> string \<Rightarrow> exn + bool" where
  "allowed_file filename mode =
     (if CHR ''.'' \<notin> set filename then Inr False
      else case index (rsplit1 CHR ''.'' filename) 1 of
             Inl e \<Rightarrow> Inl e
           | Inr suffix \<Rightarrow>
               (case getitem ALLOWED_EXTENSIONS mode of
                  Inl e \<Rightarrow> Inl e
                | Inr exts \<Rightarrow> Inr (lower suffix \<in> exts)))"

text \<open>
  The contract of the validator in the words of the specification: the filename has a dot,
  and what follows its last dot, lowercased, is in the allow-list of the mode.
\<close>

definition image_extensions :: "string set" where
  "image_extensions = {''png'', ''jpg'', ''jpeg''}"

definition video_extensions :: "string set" where
  "video_extensions = {''mp4'', ''mov'', ''avi'', ''webm''}"

definition has_extension_in :: "string \<Rightarrow> string set \<Rightarrow> bool" where
  "has_extension_in filename exts =
     (\<exists>stem ext. filename = stem @ CHR ''.'' # ext \<and> CHR ''.'' \<notin> set ext \<and> lower ext \<in> exts)"

section \<open>Requests, responses and the state of the server\<close>

text \<open>
  A JSON value as \<open>jsonify\<close> receives it: the dicts of the source become objects whose
  fields are listed in the order the source writes them. The type \<open>'f\<close> stands for Python
  floats (the inference time, the frame rate), which are only passed through.
\<close>

datatype 'f json =
    JStr string
  | JNum 'f
  | JList "'f json list"
  | JObj "(string \<times> 'f json) list"

fun jget :: "string \<Rightarrow> 'f json \<Rightarrow> 'f json option" where
  "jget k (JObj fields) = map_of fields k"
| "jget k (JStr v) = None"
| "jget k (JNum v) = None"
| "jget k (JList v) = None"

text \<open>A response is a JSON body with an HTTP status; \<open>jsonify(d)\<close> alone answers 200.\<close>

type_synonym 'f response = "'f json \<times> nat"

definition body :: "'f response \<Rightarrow> 'f json" where
  "body r = fst r"

definition status :: "'f response \<Rightarrow> nat" where
  "status r = snd r"

text \<open>
  The uploaded part: a \<open>FileStorage\<close> with its filename and its bytes (\<open>'d\<close>). A
  \<open>FileStorage\<close> is truthy when its filename is not empty.
\<close>

record 'd file_storage =
  filename :: string
  payload :: 'd

definition truthy :: "'d file_storage \<Rightarrow> bool" where
  "truthy file = (filename file \<noteq> [])"

record 'd request =
  files :: "string \<rightharpoonup> 'd file_storage"
  form :: "string \<rightharpoonup> string"

text \<open>\<open>d.get(k, default)\<close>\<close>

definition dict_get :: "(string \<rightharpoonup> 'v) \<Rightarrow> string \<Rightarrow> 'v \<Rightarrow> 'v" where
  "dict_get d k dflt = (case d k of None \<Rightarrow> dflt | Some v \<Rightarrow> v)"

text \<open>
  Files on disk: the upload as it was sent, an image written by \<open>cv2.imwrite\<close>, or a video
  as the list of frames appended by \<open>VideoWriter.write\<close> (\<open>'img\<close> is an image array).
\<close>

datatype ('d, 'img) disk_file =
    RawFile 'd
  | ImageFile 'img
  | VideoFile "'img list"

text \<open>
  The lines written by \<open>app.logger.error\<close>, by the call that writes them: the message of the
  video pipeline, the two of the processing handler (message and traceback), and those of
  the outermost handler.
\<close>

datatype log_entry =
    VideoProcessingError string
  | ErrorProcessingFile string
  | UnexpectedError string
  | Traceback exn

text \<open>
  The state a request runs in: the files on disk, the log, and the paths for which a capture
  or writer handle is open (acquired and not yet released).
\<close>

record ('d, 'img) state =
  fs :: "string \<rightharpoonup> ('d, 'img) disk_file"
  log :: "log_entry list"
  handles :: "string list"

definition logger_error :: "log_entry \<Rightarrow> ('d, 'img) state \<Rightarrow> ('d, 'img) state" where
  "logger_error entry s = s\<lparr>log := log s @ [entry]\<rparr>"

definition acquire :: "string \<Rightarrow> ('d, 'img) state \<Rightarrow> ('d, 'img) state" where
  "acquire path s = s\<lparr>handles := path # handles s\<rparr>"

definition release :: "string \<Rightarrow> ('d, 'img) state \<Rightarrow> ('d, 'img) state" where
  "release path s = s\<lparr>handles := remove1 path (handles s)\<rparr>"

definition write_file ::
  "string \<Rightarrow> ('d, 'img) disk_file \<Rightarrow> ('d, 'img) state \<Rightarrow> ('d, 'img) state" where
  "write_file path f s = s\<lparr>fs := (fs s)(path \<mapsto> f)\<rparr>"

text \<open>\<open>os.path.exists\<close> and \<open>os.remove\<close>\<close>

definition path_exists :: "string \<Rightarrow> ('d, 'img) state \<Rightarrow> bool" where
  "path_exists path s = (fs s path \<noteq> None)"

definition os_remove :: "string \<Rightarrow> ('d, 'img) state \<Rightarrow> ('d, 'img) state" where
  "os_remove path s = s\<lparr>fs := (fs s)(path := None)\<rparr>"

section \<open>The external collaborators\<close>

text \<open>
  The detection model, OpenCV and the upload storage are outside the program: the
  environment gives the outcome of each of their calls, a raised exception or a value.

  A detection result (\<open>results[0]\<close>): the outcome of \<open>plot()\<close>, the class index
  \<open>int(box.cls)\<close> of each box, the dict \<open>names\<close>, \<open>speed['inference']\<close> and
  \<open>orig_shape\<close> (height first).
\<close>

record ('f, 'img) result =
  plot :: "exn + 'img"
  boxes :: "int list"
  names :: "int \<rightharpoonup> string"
  speed_inference :: 'f
  orig_shape :: "int \<times> int"

text \<open>
  One turn of the frame loop of a video, as far as the environment decides it:
  \<open>cap.read()\<close> raises, or returns a frame; for a frame, what \<open>model(frame)\<close> does and
  whether \<open>out.write\<close> raises. The capture is a file of finitely many frames: when the
  events are used up, \<open>cap.read()\<close> returns \<open>(False, None)\<close>.
\<close>

datatype ('f, 'img) read_event =
    ReadRaises exn
  | ReadFrame 'img "exn + ('f, 'img) result list" "exn option"

text \<open>
  An opened capture: the frame rate, the integers \<open>int(cap.get(...))\<close> for width and
  height (the conversion raises on a value that is not finite), and the frames.
\<close>

record ('f, 'img) capture =
  cap_fps :: 'f
  cap_width :: "exn + int"
  cap_height :: "exn + int"
  cap_frames :: "('f, 'img) read_event list"

text \<open>
  \<open>uuid4\<close> is the string of the identifier drawn for the request; \<open>file_save\<close> is the
  exception \<open>file.save\<close> raises, if any; \<open>model_path\<close> is \<open>model(upload_path)\<close>;
  \<open>imwrite\<close> is \<open>cv2.imwrite\<close>, which returns whether it wrote the file; \<open>video_writer\<close>
  is the constructor \<open>cv2.VideoWriter\<close>, which returns a writer that is opened (the output
  file exists) or not. The last five fields are the exception, if any, raised by the
  cleanup calls: \<open>out.release()\<close>, \<open>cap.release()\<close> and \<open>cv2.destroyAllWindows()\<close> in the
  \<open>finally\<close> block of \<open>process_video\<close>, \<open>os.remove(result_path)\<close> in the handler of
  \<open>upload_file\<close>, and \<open>cv2.destroyAllWindows()\<close> in the \<open>finally\<close> block of \<open>upload_file\<close>.
  The calls of \<open>app.logger.error\<close> return normally: the logging module of Python keeps
  the errors of its handlers to itself.
\<close>

record ('f, 'img) env =
  uuid4 :: string
  file_save :: "exn option"
  model_path :: "exn + ('f, 'img) result list"
  imwrite :: "exn + bool"
  fourcc :: "exn option"
  video_capture :: "exn + ('f, 'img) capture"
  video_writer :: "exn + bool"
  writer_release :: "exn option"
  capture_release :: "exn option"
  video_destroy_windows :: "exn option"
  remove_result :: "exn option"
  destroy_windows :: "exn option"

section \<open>The video pipeline\<close>

text \<open>\<open>out.write(im_array)\<close>: an opened writer appends the frame to its file.\<close>

definition writer_write ::
  "bool \<Rightarrow> string \<Rightarrow> 'img \<Rightarrow> ('d, 'img) state \<Rightarrow> ('d, 'img) state" where
  "writer_write opened path im s =
     (if opened
      then write_file path
             (case fs s path of
                Some (VideoFile frames) \<Rightarrow> VideoFile (frames @ [im])
              | Some (RawFile d) \<Rightarrow> VideoFile [im]
              | Some (ImageFile i) \<Rightarrow> VideoFile [im]
              | None \<Rightarrow> VideoFile [im]) s
      else s)"

text \<open>
  The loop \<open>while True\<close> of \<open>process_video\<close>: read, stop at the end of the stream, detect,
  plot, write. The first exception leaves the loop.
\<close>

fun frame_loop ::
  "bool \<Rightarrow> string \<Rightarrow> ('f, 'img) read_event list \<Rightarrow> ('d, 'img) state
     \<Rightarrow> (exn + unit) \<times> ('d, 'img) state" where
  "frame_loop opened path [] s = (Inr (), s)"
| "frame_loop opened path (ReadRaises e # rest) s = (Inl e, s)"
| "frame_loop opened path (ReadFrame frame detect wr # rest) s =
     (case detect of
        Inl e \<Rightarrow> (Inl e, s)
      | Inr results \<Rightarrow>
          (case index results 0 of
             Inl e \<Rightarrow> (Inl e, s)
           | Inr r \<Rightarrow>
               (case plot r of
                  Inl e \<Rightarrow> (Inl e, s)
                | Inr im_array \<Rightarrow>
                    (case wr of
                       Some e \<Rightarrow> (Inl e, s)
                     | None \<Rightarrow> frame_loop opened path rest (writer_write opened path im_array s)))))"

text \<open>What \<open>process_video\<close> returns: the sentinel \<open>False\<close> or the dict of its statistics.\<close>

datatype 'f video_stats =
    PVFalse
  | PVStats (resolution: string) (fps: 'f)

text \<open>
  The \<open>try\<close> block of \<open>process_video\<close>. Besides its outcome it yields whether \<open>cap\<close> and
  \<open>out\<close> were assigned, which is what the \<open>finally\<close> block tests.
\<close>

definition process_video_try ::
  "('f, 'img) env \<Rightarrow> string \<Rightarrow> string \<Rightarrow> ('d, 'img) state
     \<Rightarrow> (exn + 'f video_stats) \<times> bool \<times> bool \<times> ('d, 'img) state" where
  "process_video_try env input_path output_path s =
     (case fourcc env of
        Some e \<Rightarrow> (Inl e, False, False, s)
      | None \<Rightarrow>
     (case video_capture env of
        Inl e \<Rightarrow> (Inl e, False, False, s)
      | Inr cap \<Rightarrow>
     (let s1 = acquire input_path s in
      case cap_width cap of
        Inl e \<Rightarrow> (Inl e, True, False, s1)
      | Inr w \<Rightarrow>
     (case cap_height cap of
        Inl e \<Rightarrow> (Inl e, True, False, s1)
      | Inr h \<Rightarrow>
     (let width = (if w mod 2 = 0 then w else w - 1);
          height = (if h mod 2 = 0 then h else h - 1)
      in case video_writer env of
        Inl e \<Rightarrow> (Inl e, True, False, s1)
      | Inr opened \<Rightarrow>
     (let s2 = acquire output_path
                 (if opened then write_file output_path (VideoFile []) s1 else s1)
      in case frame_loop opened output_path (cap_frames cap) s2 of
        (Inl e, s3) \<Rightarrow> (Inl e, True, True, s3)
      | (Inr u, s3) \<Rightarrow>
          (Inr (PVStats (str_int width @ ''x'' @ str_int height) (cap_fps cap)),
           True, True, s3)))))))"

text \<open>
  The \<open>finally\<close> block of \<open>process_video\<close>: release the writer and the capture if they
  were assigned, then \<open>cv2.destroyAllWindows()\<close>. The first of these calls that raises
  ends the block, and the calls after it are not made.
\<close>

definition process_video_finally ::
  "('f, 'img) env \<Rightarrow> bool \<Rightarrow> bool \<Rightarrow> string \<Rightarrow> string \<Rightarrow> ('d, 'img) state
     \<Rightarrow> exn option \<times> ('d, 'img) state" where
  "process_video_finally env cap_set out_set input_path output_path s =
     (case (if out_set then writer_release env else None) of
        Some e \<Rightarrow> (Some e, s)
      | None \<Rightarrow>
     (let s1 = (if out_set then release output_path s else s)
      in case (if cap_set then capture_release env else None) of
        Some e \<Rightarrow> (Some e, s1)
      | None \<Rightarrow>
     (let s2 = (if cap_set then release input_path s1 else s1)
      in (video_destroy_windows env, s2))))"

text \<open>
  \<open>process_video(input_path, output_path)\<close>: the \<open>try\<close> block, the handler
  \<open>except Exception\<close> that logs the cause and returns \<open>False\<close>, and the \<open>finally\<close> block.
  An exception raised in the \<open>finally\<close> block takes the place of the value that was about
  to be returned and leaves the function.
\<close>

definition process_video ::
  "('f, 'img) env \<Rightarrow> string \<Rightarrow> string \<Rightarrow> ('d, 'img) state
     \<Rightarrow> (exn + 'f video_stats) \<times> ('d, 'img) state" where
  "process_video env input_path output_path s =
     (case process_video_try env input_path output_path s of
        (outcome, cap_set, out_set, s1) \<Rightarrow>
          (let (ret, s2) =
                 (case outcome of
                    Inl e \<Rightarrow> (PVFalse, logger_error (VideoProcessingError (str_exn e)) s1)
                  | Inr stats \<Rightarrow> (stats, s1))
           in case process_video_finally env cap_set out_set input_path output_path s2 of
                (Some e, s3) \<Rightarrow> (Inl e, s3)
              | (None, s3) \<Rightarrow> (Inr ret, s3)))"

section \<open>The request handler\<close>

text \<open>
  \<open>video_stats[key]\<close> in the handler: subscripting the dict of statistics gives the field,
  subscripting \<open>False\<close> raises \<open>TypeError\<close>.
\<close>

definition not_subscriptable :: exn where
  "not_subscriptable = TypeError ([CHR 0x27] @ ''bool'' @ [CHR 0x27] @ '' object is not subscriptable'')"

definition stats_resolution :: "'f video_stats \<Rightarrow> exn + string" where
  "stats_resolution v = (case v of PVFalse \<Rightarrow> Inl not_subscriptable | PVStats r f \<Rightarrow> Inr r)"

definition stats_fps :: "'f video_stats \<Rightarrow> exn + 'f" where
  "stats_fps v = (case v of PVFalse \<Rightarrow> Inl not_subscriptable | PVStats r f \<Rightarrow> Inr f)"

text \<open>
  The loop over \<open>results[0].boxes\<close> that fills the set \<open>detected_objects\<close>. The set is kept as
  a list without repetitions, and \<open>add\<close> is \<open>List.insert\<close>. Python does not fix the order in
  which \<open>list(detected_objects)\<close> enumerates the set; the list kept here is one enumeration,
  and no statement below depends on its order.
\<close>

fun collect_detected :: "(int \<rightharpoonup> string) \<Rightarrow> int list \<Rightarrow> string list \<Rightarrow> exn + string list" where
  "collect_detected nms [] detected = Inr detected"
| "collect_detected nms (c # cs) detected =
     (case nms c of
        None \<Rightarrow> Inl (KeyError (str_int c))
      | Some n \<Rightarrow> collect_detected nms cs (List.insert n detected))"

text \<open>The branch \<open>mode == 'image'\<close> of the inner \<open>try\<close> block, up to \<open>result_data\<close>.\<close>

definition image_branch ::
  "('f, 'img) env \<Rightarrow> string \<Rightarrow> string \<Rightarrow> string \<Rightarrow> string \<Rightarrow> ('d, 'img) state
     \<Rightarrow> (exn + 'f json) \<times> ('d, 'img) state" where
  "image_branch env fname result_filename upload_path result_path s =
     (case model_path env of
        Inl e \<Rightarrow> (Inl e, s)
      | Inr results \<Rightarrow>
     (case index results 0 of
        Inl e \<Rightarrow> (Inl e, s)
      | Inr r \<Rightarrow>
     (case plot r of
        Inl e \<Rightarrow> (Inl e, s)
      | Inr im_array \<Rightarrow>
     (case imwrite env of
        Inl e \<Rightarrow> (Inl e, s)
      | Inr written \<Rightarrow>
     (let s1 = (if written then write_file result_path (ImageFile im_array) s else s)
      in case collect_detected (names r) (boxes r) [] of
        Inl e \<Rightarrow> (Inl e, s1)
      | Inr detected_objects \<Rightarrow>
          (Inr (JObj
             [(''type'', JStr ''image''),
              (''original'', JStr (''/static/uploads/'' @ fname)),
              (''result'', JStr (''/static/results/'' @ result_filename)),
              (''stats'', JObj
                 [(''inference_time'', JNum (speed_inference r)),
                  (''resolution'',
                     JStr (str_int (snd (orig_shape r)) @ ''x'' @ str_int (fst (orig_shape r)))),
                  (''detected_objects'', JList (map JStr detected_objects))])]),
           s1))))))"

text \<open>The \<open>else\<close> branch: the video pipeline, then \<open>result_data\<close> from its statistics.\<close>

definition video_branch ::
  "('f, 'img) env \<Rightarrow> string \<Rightarrow> string \<Rightarrow> string \<Rightarrow> string \<Rightarrow> ('d, 'img) state
     \<Rightarrow> (exn + 'f json) \<times> ('d, 'img) state" where
  "video_branch env fname result_filename upload_path result_path s =
     (case process_video env upload_path result_path s of
        (Inl e, s1) \<Rightarrow> (Inl e, s1)
      | (Inr video_stats, s1) \<Rightarrow>
     (case stats_resolution video_stats of
        Inl e \<Rightarrow> (Inl e, s1)
      | Inr res \<Rightarrow>
     (case stats_fps video_stats of
        Inl e \<Rightarrow> (Inl e, s1)
      | Inr rate \<Rightarrow>
          (Inr (JObj
             [(''type'', JStr ''video''),
              (''original'', JStr (''/static/uploads/'' @ fname)),
              (''result'', JStr (''/static/results/'' @ result_filename)),
              (''stats'', JObj
                 [(''resolution'', JStr res),
                  (''fps'', JNum rate),
                  (''detected_objects'', JList [])])]),
           s1))))"

text \<open>The inner \<open>try\<close> block: the branch of the mode, then \<open>return jsonify(result_data)\<close>.\<close>

definition process_try ::
  "('f, 'img) env \<Rightarrow> string \<Rightarrow> string \<Rightarrow> string \<Rightarrow> string \<Rightarrow> string \<Rightarrow> ('d, 'img) state
     \<Rightarrow> (exn + 'f response) \<times> ('d, 'img) state" where
  "process_try env mode fname result_filename upload_path result_path s =
     (case (if mode = ''image''
            then image_branch env fname result_filename upload_path result_path s
            else video_branch env fname result_filename upload_path result_path s) of
        (Inl e, s1) \<Rightarrow> (Inl e, s1)
      | (Inr result_data, s1) \<Rightarrow> (Inr (result_data, 200), s1))"

text \<open>
  The handler of the inner \<open>try\<close> statement: the exception is logged with its traceback,
  the result file is removed if it exists, and the answer is 500 with the message of the
  exception as \<open>details\<close>. When \<open>os.remove\<close> raises, the file stays and the exception leaves
  the handler.
\<close>

definition process_except ::
  "('f, 'img) env \<Rightarrow> string \<Rightarrow> exn \<Rightarrow> ('d, 'img) state
     \<Rightarrow> (exn + 'f response) \<times> ('d, 'img) state" where
  "process_except env result_path e s =
     (let s1 = logger_error (ErrorProcessingFile (str_exn e)) s;
          s2 = logger_error (Traceback e) s1;
          resp = (JObj [(''error'', JStr ''Error processing file''),
                        (''details'', JStr (str_exn e))], 500)
      in if path_exists result_path s2
         then (case remove_result env of
                 Some e' \<Rightarrow> (Inl e', s2)
               | None \<Rightarrow> (Inr resp, os_remove result_path s2))
         else (Inr resp, s2))"

text \<open>
  The inner \<open>try\<close> statement: the block, its handler, and the \<open>finally\<close> block, which
  calls \<open>cv2.destroyAllWindows()\<close>. An exception of the \<open>finally\<close> block takes the place
  of the response or of the exception that was on its way out.
\<close>

definition process ::
  "('f, 'img) env \<Rightarrow> string \<Rightarrow> string \<Rightarrow> string \<Rightarrow> string \<Rightarrow> string \<Rightarrow> ('d, 'img) state
     \<Rightarrow> (exn + 'f response) \<times> ('d, 'img) state" where
  "process env mode fname result_filename upload_path result_path s =
     (case (case process_try env mode fname result_filename upload_path result_path s of
              (Inr resp, s1) \<Rightarrow> (Inr resp, s1)
            | (Inl e, s1) \<Rightarrow> process_except env result_path e s1) of
        (pending, s2) \<Rightarrow>
          (case destroy_windows env of
             Some e \<Rightarrow> (Inl e, s2)
           | None \<Rightarrow> (pending, s2)))"

text \<open>
  The outer \<open>try\<close> block of \<open>upload_file\<close>: the checks of the request, the validator, the
  stored upload under a fresh name, and the processing. An exception that reaches the end
  of this block (from the validator, from \<open>file.save\<close>, or from the cleanup of the inner
  \<open>try\<close> statement) goes to the outermost handler.
\<close>

definition upload_file_try ::
  "('f, 'img) env \<Rightarrow> 'd request \<Rightarrow> ('d, 'img) state
     \<Rightarrow> (exn + 'f response) \<times> ('d, 'img) state" where
  "upload_file_try env req s =
     (case files req ''file'' of
        None \<Rightarrow> (Inr (JObj [(''error'', JStr ''No file part'')], 400), s)
      | Some file \<Rightarrow>
     (let mode = dict_get (form req) ''mode'' ''image'' in
      if filename file = [] then (Inr (JObj [(''error'', JStr ''No selected file'')], 400), s)
      else
     (case (if \<not> truthy file then Inr False else allowed_file (filename file) mode) of
        Inl e \<Rightarrow> (Inl e, s)
      | Inr ok \<Rightarrow>
      if \<not> ok
      then (Inr (JObj [(''error'', JStr (''Invalid file type for '' @ mode @ '' mode''))], 400), s)
      else
     (case index (rsplit1 CHR ''.'' (filename file)) 1 of
        Inl e \<Rightarrow> (Inl e, s)
      | Inr suffix \<Rightarrow>
     (let ext = lower suffix;
          fname = uuid4 env @ ''.'' @ ext;
          upload_path = path_join UPLOAD_FOLDER fname
      in case file_save env of
        Some e \<Rightarrow> (Inl e, s)
      | None \<Rightarrow>
     (let s1 = write_file upload_path (RawFile (payload file)) s;
          result_filename = ''result_'' @ fname;
          result_path = path_join RESULT_FOLDER result_filename
      in process env mode fname result_filename upload_path result_path s1))))))"

text \<open>The outermost handler: log the exception and its traceback, answer 500.\<close>

definition unexpected_error ::
  "exn \<Rightarrow> ('d, 'img) state \<Rightarrow> 'f response \<times> ('d, 'img) state" where
  "unexpected_error e s =
     (let s1 = logger_error (UnexpectedError (str_exn e)) s;
          s2 = logger_error (Traceback e) s1
      in ((JObj [(''error'', JStr ''Internal server error'')], 500), s2))"

text \<open>
  The outer \<open>try\<close> statement around a block that has run: a response is returned, an
  exception goes to the outermost handler.
\<close>

definition outer_except ::
  "(exn + 'f response) \<times> ('d, 'img) state \<Rightarrow> 'f response \<times> ('d, 'img) state" where
  "outer_except r =
     (case r of
        (Inr resp, s1) \<Rightarrow> (resp, s1)
      | (Inl e, s1) \<Rightarrow> unexpected_error e s1)"

text \<open>\<open>upload_file()\<close>, the handler of \<open>POST /upload\<close>.\<close>

definition upload_file ::
  "('f, 'img) env \<Rightarrow> 'd request \<Rightarrow> ('d, 'img) state \<Rightarrow> 'f response \<times> ('d, 'img) state" where
  "upload_file env req s = outer_except (upload_file_try env req s)"

section \<open>Sample inputs\<close>

text \<open>
  Concrete inputs on which the theorems below are run. Floats are integers and images are
  strings here. The sample detection finds three boxes of two classes.
\<close>

definition sample_result :: "(int, string) result" where
  "sample_result =
     \<lparr>plot = Inr ''annotated'', boxes = [0, 1, 0], names = [0 \<mapsto> ''cat'', 1 \<mapsto> ''dog''],
      speed_inference = 12, orig_shape = (480, 640)\<rparr>"

text \<open>A video of 639 by 480 pixels with two frames, both processed without error.\<close>

definition sample_capture :: "(int, string) capture" where
  "sample_capture =
     \<lparr>cap_fps = 25, cap_width = Inr 639, cap_height = Inr 480,
      cap_frames = [ReadFrame ''frame1'' (Inr [sample_result]) None,
                    ReadFrame ''frame2'' (Inr [sample_result]) None]\<rparr>"

text \<open>The same video, where the detection raises on the second frame.\<close>

definition failing_capture :: "(int, string) capture" where
  "failing_capture =
     \<lparr>cap_fps = 25, cap_width = Inr 639, cap_height = Inr 480,
      cap_frames = [ReadFrame ''frame1'' (Inr [sample_result]) None,
                    ReadFrame ''frame2'' (Inl (ExternalError ''codec error'')) None]\<rparr>"

text \<open>
  An environment in which every call returns normally, and \<open>cv2.imwrite\<close> returns
  \<open>False\<close>.
\<close>

definition sample_env :: "(int, string) env" where
  "sample_env =
     \<lparr>uuid4 = ''0b5e'', file_save = None, model_path = Inr [sample_result],
      imwrite = Inr False, fourcc = None, video_capture = Inr sample_capture,
      video_writer = Inr True, writer_release = None, capture_release = None,
      video_destroy_windows = None, remove_result = None, destroy_windows = None\<rparr>"

definition failing_env :: "(int, string) env" where
  "failing_env = sample_env\<lparr>video_capture := Inr failing_capture\<rparr>"

text \<open>An environment whose video writer does not open, and does not raise.\<close>

definition unopened_env :: "(int, string) env" where
  "unopened_env = sample_env\<lparr>video_writer := Inr False\<rparr>"

text \<open>An OpenCV built without window support: \<open>cv2.destroyAllWindows\<close> raises.\<close>

definition headless_env :: "(int, string) env" where
  "headless_env =
     sample_env\<lparr>video_destroy_windows := Some (ExternalError ''The function is not implemented''),
                destroy_windows := Some (ExternalError ''The function is not implemented'')\<rparr>"

text \<open>An environment in which the result file cannot be removed.\<close>

definition locked_env :: "(int, string) env" where
  "locked_env = failing_env\<lparr>remove_result := Some (ExternalError ''Permission denied'')\<rparr>"

definition image_request :: "string request" where
  "image_request =
     \<lparr>files = [''file'' \<mapsto> \<lparr>filename = ''photo.PNG'', payload = ''image bytes''\<rparr>],
      form = Map.empty\<rparr>"

definition video_request :: "string request" where
  "video_request =
     \<lparr>files = [''file'' \<mapsto> \<lparr>filename = ''clip.MP4'', payload = ''video bytes''\<rparr>],
      form = [''mode'' \<mapsto> ''video'']\<rparr>"

definition unnamed_request :: "string request" where
  "unnamed_request =
     \<lparr>files = [''file'' \<mapsto> \<lparr>filename = [], payload = []\<rparr>], form = Map.empty\<rparr>"

definition audio_request :: "string request" where
  "audio_request =
     \<lparr>files = [''file'' \<mapsto> \<lparr>filename = ''a.png'', payload = ''image bytes''\<rparr>],
      form = [''mode'' \<mapsto> ''audio'']\<rparr>"

definition empty_disk :: "(string, string) state" where
  "empty_disk = \<lparr>fs = Map.empty, log = [], handles = []\<rparr>"

section \<open>Properties of the validator\<close>

lemma rsplit_scan_found:
  "CHR ''.'' \<notin> set ext \<Longrightarrow>
   rsplit_scan CHR ''.'' (rev ext @ CHR ''.'' # rs) acc = Some (rev rs, ext @ acc)"
proof (induction ext arbitrary: acc rule: rev_induct)
  case Nil
  then show ?case by simp
next
  case (snoc c ext)
  then have "c \<noteq> CHR ''.''" and "CHR ''.'' \<notin> set ext" by auto
  with snoc.IH [of "c # acc"] show ?case by simp
qed

lemma rsplit1_last_dot:
  assumes "CHR ''.'' \<notin> set ext"
  shows "rsplit1 CHR ''.'' (stem @ CHR ''.'' # ext) = [stem, ext]"
  using rsplit_scan_found [OF assms, of "rev stem" "[]"]
  by (simp add: rsplit1_def)

lemma split_at_last_dot:
  assumes "CHR ''.'' \<in> set s"
  shows "\<exists>stem ext. s = stem @ CHR ''.'' # ext \<and> CHR ''.'' \<notin> set ext"
  using assms split_list_last [of "CHR ''.''" s] by blast

lemma last_dot_unique:
  assumes "stem @ CHR ''.'' # ext = stem' @ CHR ''.'' # ext'"
    and "CHR ''.'' \<notin> set ext" and "CHR ''.'' \<notin> set ext'"
  shows "ext = ext'"
proof -
  have l: "rsplit1 CHR ''.'' (stem @ CHR ''.'' # ext) = [stem, ext]"
    using assms(2) by (rule rsplit1_last_dot)
  have r: "rsplit1 CHR ''.'' (stem' @ CHR ''.'' # ext') = [stem', ext']"
    using assms(3) by (rule rsplit1_last_dot)
  have "[stem, ext] = [stem', ext']"
    using l r by (simp only: assms(1))
  then show ?thesis by simp
qed

lemma allowed_file_known_mode:
  assumes "ALLOWED_EXTENSIONS mode = Some exts"
  shows "allowed_file name mode = Inr (has_extension_in name exts)"
proof (cases "CHR ''.'' \<in> set name")
  case False
  then have "\<not> has_extension_in name exts"
    by (auto simp: has_extension_in_def)
  with False show ?thesis by (simp add: allowed_file_def)
next
  case True
  then obtain stem ext where s: "name = stem @ CHR ''.'' # ext" and e: "CHR ''.'' \<notin> set ext"
    using split_at_last_dot by blast
  have "has_extension_in name exts = (lower ext \<in> exts)"
  proof
    assume "has_extension_in name exts"
    then obtain stem' ext' where s': "name = stem' @ CHR ''.'' # ext'"
      and e': "CHR ''.'' \<notin> set ext'" and m: "lower ext' \<in> exts"
      unfolding has_extension_in_def by blast
    from s s' have "stem @ CHR ''.'' # ext = stem' @ CHR ''.'' # ext'" by simp
    then have "ext = ext'" using e e' by (rule last_dot_unique)
    with m show "lower ext \<in> exts" by simp
  next
    assume "lower ext \<in> exts"
    with s e show "has_extension_in name exts"
      unfolding has_extension_in_def by blast
  qed
  moreover have "allowed_file name mode = Inr (lower ext \<in> exts)"
    using True assms rsplit1_last_dot [OF e, of stem] s
    by (simp add: allowed_file_def index_def getitem_def)
  ultimately show ?thesis by simp
qed

text \<open>
  Claim C1. For every filename, in image mode and in video mode, the validator returns
  (without raising) whether the filename contains a dot and the part after its last dot,
  lowercased, is in the fixed allow-list of the mode: png, jpg, jpeg for images and mp4,
  mov, avi, webm for videos. A filename without a dot is rejected, and two filenames whose
  extensions differ only in letter case get the same answer.
\<close>

theorem allowed_file_contract:
  "allowed_file name ''image'' = Inr (has_extension_in name image_extensions)
   \<and> allowed_file name ''video'' = Inr (has_extension_in name video_extensions)
   \<and> (CHR ''.'' \<notin> set name \<longrightarrow> allowed_file name mode = Inr False)
   \<and> (CHR ''.'' \<notin> set ext \<and> CHR ''.'' \<notin> set ext' \<and> lower ext = lower ext' \<longrightarrow>
        allowed_file (stem @ CHR ''.'' # ext) mode = allowed_file (stem' @ CHR ''.'' # ext') mode)"
proof (intro conjI impI)
  show "allowed_file name ''image'' = Inr (has_extension_in name image_extensions)"
    by (rule allowed_file_known_mode) (simp add: ALLOWED_EXTENSIONS_def image_extensions_def)
  show "allowed_file name ''video'' = Inr (has_extension_in name video_extensions)"
    by (rule allowed_file_known_mode) (simp add: ALLOWED_EXTENSIONS_def video_extensions_def)
  show "allowed_file name mode = Inr False" if "CHR ''.'' \<notin> set name"
    using that by (simp add: allowed_file_def)
  show "allowed_file (stem @ CHR ''.'' # ext) mode = allowed_file (stem' @ CHR ''.'' # ext') mode"
    if "CHR ''.'' \<notin> set ext \<and> CHR ''.'' \<notin> set ext' \<and> lower ext = lower ext'"
    using that rsplit1_last_dot [of ext stem] rsplit1_last_dot [of ext' stem']
    by (simp add: allowed_file_def index_def split: sum.splits)
qed

theorem allowed_file_contract_witness:
  "CHR ''.'' \<notin> set ''README'' \<and> allowed_file ''README'' ''video'' = Inr False
   \<and> (CHR ''.'' \<notin> set ''MP4'' \<and> CHR ''.'' \<notin> set ''mp4'' \<and> lower ''MP4'' = lower ''mp4'')
   \<and> allowed_file ''clip.MP4'' ''video'' = allowed_file ''clip.mp4'' ''video''"
proof -
  have l: "lower ''MP4'' = lower ''mp4''" by code_simp
  show ?thesis
    using l allowed_file_contract [where name = "''README''" and mode = "''video''"
        and ext = "''MP4''" and ext' = "''mp4''" and stem = "''clip''" and stem' = "''clip''",
        THEN conjunct2, THEN conjunct2]
    by simp
qed

section \<open>What the pipelines change\<close>

text \<open>
  The frame loop and the video pipeline write to no file but the output path, and the loop
  leaves the log and the handles alone. The \<open>finally\<close> block of the video pipeline
  changes neither the files nor the log.
\<close>

lemma frame_loop_frame:
  assumes "frame_loop opened path evs s = (r, s')"
  shows "(p \<noteq> path \<longrightarrow> fs s' p = fs s p) \<and> log s' = log s \<and> handles s' = handles s"
  using assms
proof (induction opened path evs s rule: frame_loop.induct)
  case (1 opened path s)
  then show ?case by simp
next
  case (2 opened path e rest s)
  then show ?case by simp
next
  case (3 opened path frame detect wr rest s)
  then show ?case
    by (auto simp: writer_write_def write_file_def split: sum.splits option.splits if_splits)
qed

lemma process_video_try_frame:
  assumes "process_video_try env inp outp s = (r, c, w, s')"
  shows "(p \<noteq> outp \<longrightarrow> fs s' p = fs s p) \<and> log s' = log s"
  using assms frame_loop_frame [where p = p and path = outp]
  unfolding process_video_try_def
  by (fastforce simp: Let_def acquire_def write_file_def
      split: option.splits sum.splits prod.splits if_splits)

lemma process_video_try_stats:
  assumes "process_video_try env inp outp s = (Inr v, c, w, s')"
  shows "\<exists>cap wd ht. video_capture env = Inr cap \<and> cap_width cap = Inr wd \<and> cap_height cap = Inr ht
           \<and> v = PVStats (str_int (if wd mod 2 = 0 then wd else wd - 1) @ ''x''
                           @ str_int (if ht mod 2 = 0 then ht else ht - 1)) (cap_fps cap)"
  using assms unfolding process_video_try_def
  by (simp add: Let_def split: option.splits sum.splits prod.splits split del: if_split)

lemma process_video_finally_frame:
  "fs (snd (process_video_finally env c w inp outp s)) = fs s
   \<and> log (snd (process_video_finally env c w inp outp s)) = log s"
  by (simp add: process_video_finally_def Let_def release_def split: option.splits)

lemma process_video_finally_ok:
  assumes "writer_release env = None" and "capture_release env = None"
    and "video_destroy_windows env = None"
  shows "fst (process_video_finally env c w inp outp s) = None"
  using assms by (simp add: process_video_finally_def Let_def)

lemma process_video_result:
  assumes "process_video_try env inp outp s = (r, c, w, s1)"
  shows "fs (snd (process_video env inp outp s)) = fs s1"
    and "log (snd (process_video env inp outp s)) =
           (case r of Inl e \<Rightarrow> log s @ [VideoProcessingError (str_exn e)] | Inr v \<Rightarrow> log s)"
    and "fst (process_video env inp outp s) = Inr v \<Longrightarrow>
           v = (case r of Inl e \<Rightarrow> PVFalse | Inr v' \<Rightarrow> v')"
    and "writer_release env = None \<Longrightarrow> capture_release env = None \<Longrightarrow>
         video_destroy_windows env = None \<Longrightarrow>
           fst (process_video env inp outp s) = Inr (case r of Inl e \<Rightarrow> PVFalse | Inr v' \<Rightarrow> v')"
proof -
  let ?s2 = "case r of Inl e \<Rightarrow> logger_error (VideoProcessingError (str_exn e)) s1 | Inr v \<Rightarrow> s1"
  let ?ret = "case r of Inl e \<Rightarrow> PVFalse | Inr v' \<Rightarrow> v'"
  obtain x s3 where f: "process_video_finally env c w inp outp ?s2 = (x, s3)"
    by (cases "process_video_finally env c w inp outp ?s2")
  have pv: "process_video env inp outp s =
              (case x of Some e \<Rightarrow> (Inl e, s3) | None \<Rightarrow> (Inr ?ret, s3))"
    using assms f by (cases r) (simp_all add: process_video_def split: option.splits)
  have fr: "fs s3 = fs ?s2" "log s3 = log ?s2"
    using process_video_finally_frame [of env c w inp outp ?s2] f by simp_all
  have l1: "log s1 = log s" using process_video_try_frame [OF assms] by simp
  show "fs (snd (process_video env inp outp s)) = fs s1"
    using pv fr(1) by (cases r; cases x) (simp_all add: logger_error_def)
  show "log (snd (process_video env inp outp s)) =
           (case r of Inl e \<Rightarrow> log s @ [VideoProcessingError (str_exn e)] | Inr v \<Rightarrow> log s)"
    using pv fr(2) l1 by (cases r; cases x) (simp_all add: logger_error_def)
  show "v = ?ret" if "fst (process_video env inp outp s) = Inr v"
    using that pv by (cases x) simp_all
  show "fst (process_video env inp outp s) = Inr ?ret"
    if "writer_release env = None" "capture_release env = None" "video_destroy_windows env = None"
    using process_video_finally_ok [OF that, of c w inp outp ?s2] f pv by simp
qed

lemma process_video_fs:
  assumes "p \<noteq> outp"
  shows "fs (snd (process_video env inp outp s)) p = fs s p"
proof -
  obtain r c w s1 where t: "process_video_try env inp outp s = (r, c, w, s1)"
    by (metis prod_cases4)
  show ?thesis
    using assms process_video_result(1) [OF t] process_video_try_frame [OF t, of p] by simp
qed

text \<open>The stored upload and the result file never share a path.\<close>

lemma paths_distinct:
  "path_join UPLOAD_FOLDER (u @ ''.'' @ e) \<noteq> path_join RESULT_FOLDER (''result_'' @ u @ ''.'' @ e)"
  by (cases u) (auto simp: path_join_def UPLOAD_FOLDER_def RESULT_FOLDER_def)

lemma collect_detected_set:
  assumes "collect_detected nms cs acc = Inr objs" and "distinct acc"
  shows "distinct objs \<and> set objs = set acc \<union> {n. \<exists>c \<in> set cs. nms c = Some n}
         \<and> length objs \<le> length acc + length cs"
  using assms
proof (induction cs arbitrary: acc)
  case Nil
  then show ?case by simp
next
  case (Cons c cs)
  from Cons.prems(1) obtain n where n: "nms c = Some n"
    and rest: "collect_detected nms cs (List.insert n acc) = Inr objs"
    by (auto split: option.splits)
  have d: "distinct (List.insert n acc)" using Cons.prems(2) by simp
  have len: "length (List.insert n acc) \<le> Suc (length acc)"
    by (simp add: List.insert_def)
  from Cons.IH [OF rest d] n len show ?case by auto
qed

lemma image_branch_fs:
  assumes "p \<noteq> rp"
  shows "fs (snd (image_branch env fname rfn up rp s)) p = fs s p"
  using assms unfolding image_branch_def
  by (simp add: Let_def write_file_def split: sum.splits)

lemma video_branch_fs:
  assumes "p \<noteq> rp"
  shows "fs (snd (video_branch env fname rfn up rp s)) p = fs s p"
proof -
  obtain r s1 where pv: "process_video env up rp s = (r, s1)" by (cases "process_video env up rp s")
  have "fs s1 p = fs s p" using process_video_fs [OF assms, of env up s] pv by simp
  then show ?thesis
    unfolding video_branch_def using pv by (simp split: sum.splits)
qed

lemma process_try_fs:
  assumes "p \<noteq> rp"
  shows "fs (snd (process_try env mode fname rfn up rp s)) p = fs s p"
proof (cases "mode = ''image''")
  case True
  then show ?thesis
    using image_branch_fs [OF assms, of env fname rfn up s]
    by (cases "image_branch env fname rfn up rp s") (simp add: process_try_def split: sum.splits)
next
  case False
  then show ?thesis
    using video_branch_fs [OF assms, of env fname rfn up s]
    by (cases "video_branch env fname rfn up rp s") (simp add: process_try_def split: sum.splits)
qed

text \<open>The handler of the inner \<open>try\<close> statement touches no file but the result file.\<close>

lemma process_except_fs:
  assumes "p \<noteq> rp"
  shows "fs (snd (process_except env rp e s)) p = fs s p"
  using assms
  by (simp add: process_except_def Let_def logger_error_def os_remove_def path_exists_def
      split: option.splits)

lemma process_except_outcome:
  "(\<exists>e'. fst (process_except env rp e s) = Inl e')
   \<or> fst (process_except env rp e s)
       = Inr (JObj [(''error'', JStr ''Error processing file''), (''details'', JStr (str_exn e))], 500)"
  by (simp add: process_except_def Let_def split: option.splits)

lemma process_except_removed:
  assumes "remove_result env = None"
  shows "fs (snd (process_except env rp e s)) rp = None"
  using assms
  by (simp add: process_except_def Let_def logger_error_def os_remove_def path_exists_def)

text \<open>The inner \<open>try\<close> statement, by the outcome of its block.\<close>

lemma process_unfold:
  assumes "process_try env mode fname rfn up rp s = (r, s1)"
  shows "process env mode fname rfn up rp s =
           (case destroy_windows env of
              Some e \<Rightarrow> (Inl e, snd (case r of Inr resp \<Rightarrow> (Inr resp, s1)
                                        | Inl e' \<Rightarrow> process_except env rp e' s1))
            | None \<Rightarrow> (case r of Inr resp \<Rightarrow> (Inr resp, s1)
                        | Inl e' \<Rightarrow> process_except env rp e' s1))"
  using assms
  by (cases r; cases "process_except env rp (projl r) s1")
     (simp_all add: process_def split: option.splits)

lemma process_fs:
  assumes "p \<noteq> rp"
  shows "fs (snd (process env mode fname rfn up rp s)) p = fs s p"
proof -
  obtain r s1 where t: "process_try env mode fname rfn up rp s = (r, s1)"
    by (cases "process_try env mode fname rfn up rp s")
  have s1: "fs s1 p = fs s p" using process_try_fs [OF assms, of env mode fname rfn up s] t by simp
  show ?thesis
    unfolding process_unfold [OF t]
    using s1 process_except_fs [OF assms, of env _ s1]
    by (cases r; cases "destroy_windows env") simp_all
qed

text \<open>The outermost handler answers 500 and writes to the log only.\<close>

lemma unexpected_error_response:
  "fst (unexpected_error e s) = (JObj [(''error'', JStr ''Internal server error'')], 500)"
  "fs (snd (unexpected_error e s)) = fs s"
  by (simp_all add: unexpected_error_def Let_def logger_error_def)

lemma outer_except_fs: "fs (snd (outer_except r)) = fs (snd r)"
  by (cases r; cases "fst r") (simp_all add: outer_except_def unexpected_error_response)

lemma outer_except_200:
  assumes "snd (fst (outer_except r)) = 200"
  shows "\<exists>d. fst r = Inr (d, 200) \<and> fst (outer_except r) = (d, 200)"
  using assms
  by (cases r; cases "fst r") (auto simp: outer_except_def unexpected_error_response)

lemma process_200:
  assumes "fst (process env mode fname rfn up rp s) = Inr (d, 200)"
  shows "fst (process_try env mode fname rfn up rp s) = Inr (d, 200)"
proof -
  obtain r s1 where t: "process_try env mode fname rfn up rp s = (r, s1)"
    by (cases "process_try env mode fname rfn up rp s")
  show ?thesis
  proof (cases r)
    case (Inl e')
    with assms process_unfold [OF t] process_except_outcome [of env rp e' s1]
    show ?thesis by (cases "destroy_windows env") auto
  next
    case (Inr resp)
    with assms process_unfold [OF t] t show ?thesis
      by (cases "destroy_windows env") auto
  qed
qed

text \<open>
  When the block of the inner \<open>try\<close> statement raises, the answer is 500 with an \<open>error\<close>
  field, from the handler of the statement or from the outermost one.
\<close>

lemma process_failure:
  assumes "fst (process_try env mode fname rfn up rp s) = Inl e"
  shows "snd (fst (outer_except (process env mode fname rfn up rp s))) = 500"
    and "jget ''error'' (fst (fst (outer_except (process env mode fname rfn up rp s))))
           = Some (JStr ''Error processing file'')
         \<or> jget ''error'' (fst (fst (outer_except (process env mode fname rfn up rp s))))
           = Some (JStr ''Internal server error'')"
    and "remove_result env = None \<Longrightarrow>
           fs (snd (outer_except (process env mode fname rfn up rp s))) rp = None"
proof -
  obtain s1 where t: "process_try env mode fname rfn up rp s = (Inl e, s1)"
    using assms by (cases "process_try env mode fname rfn up rp s") simp
  obtain x s2 where x: "process_except env rp e s1 = (x, s2)"
    by (cases "process_except env rp e s1")
  have p: "process env mode fname rfn up rp s =
             (case destroy_windows env of Some e' \<Rightarrow> (Inl e', s2) | None \<Rightarrow> (x, s2))"
    using process_unfold [OF t] x by (simp split: option.splits)
  have xo: "(\<exists>e'. x = Inl e')
     \<or> x = Inr (JObj [(''error'', JStr ''Error processing file''), (''details'', JStr (str_exn e))], 500)"
    using process_except_outcome [of env rp e s1] x by simp
  show "snd (fst (outer_except (process env mode fname rfn up rp s))) = 500"
    using p xo by (cases "destroy_windows env")
      (auto simp: outer_except_def unexpected_error_response)
  show "jget ''error'' (fst (fst (outer_except (process env mode fname rfn up rp s))))
           = Some (JStr ''Error processing file'')
         \<or> jget ''error'' (fst (fst (outer_except (process env mode fname rfn up rp s))))
           = Some (JStr ''Internal server error'')"
    using p xo by (cases "destroy_windows env")
      (auto simp: outer_except_def unexpected_error_response)
  show "fs (snd (outer_except (process env mode fname rfn up rp s))) rp = None"
    if "remove_result env = None"
    using p process_except_removed [OF that, of rp e s1] x
    by (cases "destroy_windows env") (simp_all add: outer_except_fs)
qed

lemma allowed_file_dot:
  assumes "allowed_file name mode = Inr True"
  shows "name \<noteq> []"
  using assms by (auto simp: allowed_file_def)

text \<open>
  A request with a file part that passes the validator and is stored goes on to the
  processing, under the names made from the identifier and the lowered suffix.
\<close>

lemma upload_file_stored:
  assumes "files req ''file'' = Some file"
    and "allowed_file (filename file) (dict_get (form req) ''mode'' ''image'') = Inr True"
    and "index (rsplit1 CHR ''.'' (filename file)) 1 = Inr suffix"
    and "file_save env = None"
  shows "upload_file env req s =
           outer_except
            (process env (dict_get (form req) ''mode'' ''image'')
               (uuid4 env @ ''.'' @ lower suffix)
               (''result_'' @ uuid4 env @ ''.'' @ lower suffix)
               (path_join UPLOAD_FOLDER (uuid4 env @ ''.'' @ lower suffix))
               (path_join RESULT_FOLDER (''result_'' @ uuid4 env @ ''.'' @ lower suffix))
               (write_file (path_join UPLOAD_FOLDER (uuid4 env @ ''.'' @ lower suffix))
                  (RawFile (payload file)) s))"
  using assms allowed_file_dot [OF assms(2)]
  by (simp add: upload_file_def upload_file_try_def Let_def truthy_def)

section \<open>The request handler: client errors\<close>

text \<open>
  Claim C7. For every upload request whose file part is present and has the empty string as
  filename, the handler answers with status 400 and with the body that has the single field
  \<open>error\<close> with the value \<open>No selected file\<close>, whatever the mode and the environment.
\<close>

theorem empty_filename_400:
  assumes "files req ''file'' = Some file" and "filename file = []"
  shows "fst (upload_file env req s) = (JObj [(''error'', JStr ''No selected file'')], 400)"
  using assms by (simp add: upload_file_def upload_file_try_def outer_except_def Let_def)

theorem empty_filename_400_witness:
  "files unnamed_request ''file'' = Some \<lparr>filename = [], payload = []\<rparr>
   \<and> filename \<lparr>filename = [], payload = ''''\<rparr> = []
   \<and> fst (upload_file sample_env unnamed_request empty_disk)
       = (JObj [(''error'', JStr ''No selected file'')], 400)"
proof -
  have f: "files unnamed_request ''file'' = Some \<lparr>filename = [], payload = []\<rparr>"
    by (simp add: unnamed_request_def)
  have n: "filename \<lparr>filename = [], payload = ''''\<rparr> = []" by simp
  show ?thesis
    using f n empty_filename_400 [OF f n, of sample_env empty_disk] by simp
qed

section \<open>The video pipeline: outcomes\<close>

text \<open>
  Claim C8 says that \<open>process_video\<close> never raises and returns \<open>False\<close> on any internal
  failure. In an OpenCV without window support \<open>cv2.destroyAllWindows\<close> raises in the
  \<open>finally\<close> block, outside the handler, and the exception leaves the function; and a
  writer that does not open without raising is no failure for the code: the statistics are
  returned, nothing is logged and no output file exists.
\<close>

theorem process_video_raises_counterexample:
  "fst (process_video headless_env ''in.mp4'' ''out.mp4'' empty_disk)
     = Inl (ExternalError ''The function is not implemented'')
   \<and> video_writer unopened_env = Inr False
   \<and> fst (process_video unopened_env ''in.mp4'' ''out.mp4'' empty_disk) = Inr (PVStats ''638x480'' 25)
   \<and> log (snd (process_video unopened_env ''in.mp4'' ''out.mp4'' empty_disk)) = []
   \<and> fs (snd (process_video unopened_env ''in.mp4'' ''out.mp4'' empty_disk)) ''out.mp4'' = None"
  by code_simp

text \<open>
  Claim C8, amended. For every input and output path, when the release calls and
  \<open>cv2.destroyAllWindows\<close> of the \<open>finally\<close> block return normally, \<open>process_video\<close> returns
  to its caller and does not raise: when its \<open>try\<close> block raises an exception, it returns
  the sentinel \<open>False\<close> and has logged the message of that exception; otherwise it returns
  the statistics, a resolution and a frame rate, and logs nothing. There is no third
  outcome. A failure is an exception raised in the \<open>try\<close> block.
\<close>

theorem process_video_outcomes:
  assumes "writer_release env = None" and "capture_release env = None"
    and "video_destroy_windows env = None"
  shows
  "(\<exists>e. fst (process_video_try env inp outp s) = Inl e
        \<and> fst (process_video env inp outp s) = Inr PVFalse
        \<and> log (snd (process_video env inp outp s)) = log s @ [VideoProcessingError (str_exn e)])
   \<or> (\<exists>res rate. fst (process_video_try env inp outp s) = Inr (PVStats res rate)
        \<and> fst (process_video env inp outp s) = Inr (PVStats res rate)
        \<and> log (snd (process_video env inp outp s)) = log s)"
proof -
  obtain r c w s1 where t: "process_video_try env inp outp s = (r, c, w, s1)"
    by (metis prod_cases4)
  note res = process_video_result(2,4) [OF t]
  show ?thesis
  proof (cases r)
    case (Inl e)
    then show ?thesis
      using t res(1) res(2) [OF assms] by simp
  next
    case (Inr v)
    with t process_video_try_stats [of env inp outp s v c w s1]
    obtain res' rate where "v = PVStats res' rate" by auto
    with Inr show ?thesis
      using t res(1) res(2) [OF assms] by simp
  qed
qed

theorem process_video_outcomes_witness:
  "writer_release failing_env = None \<and> capture_release failing_env = None
   \<and> video_destroy_windows failing_env = None
   \<and> fst (process_video_try failing_env ''in.mp4'' ''out.mp4'' empty_disk)
       = Inl (ExternalError ''codec error'')
   \<and> fst (process_video failing_env ''in.mp4'' ''out.mp4'' empty_disk) = Inr PVFalse
   \<and> log (snd (process_video failing_env ''in.mp4'' ''out.mp4'' empty_disk))
       = [VideoProcessingError ''codec error'']
   \<and> ((\<exists>e. fst (process_video_try failing_env ''in.mp4'' ''out.mp4'' empty_disk) = Inl e
        \<and> fst (process_video failing_env ''in.mp4'' ''out.mp4'' empty_disk) = Inr PVFalse
        \<and> log (snd (process_video failing_env ''in.mp4'' ''out.mp4'' empty_disk))
            = log empty_disk @ [VideoProcessingError (str_exn e)])
      \<or> (\<exists>res rate. fst (process_video_try failing_env ''in.mp4'' ''out.mp4'' empty_disk)
            = Inr (PVStats res rate)
        \<and> fst (process_video failing_env ''in.mp4'' ''out.mp4'' empty_disk) = Inr (PVStats res rate)
        \<and> log (snd (process_video failing_env ''in.mp4'' ''out.mp4'' empty_disk)) = log empty_disk))"
proof -
  have a: "writer_release failing_env = None" by (simp add: failing_env_def sample_env_def)
  have b: "capture_release failing_env = None" by (simp add: failing_env_def sample_env_def)
  have c: "video_destroy_windows failing_env = None" by (simp add: failing_env_def sample_env_def)
  have t: "fst (process_video_try failing_env ''in.mp4'' ''out.mp4'' empty_disk)
       = Inl (ExternalError ''codec error'')" by code_simp
  have p: "fst (process_video failing_env ''in.mp4'' ''out.mp4'' empty_disk) = Inr PVFalse"
    by code_simp
  have l: "log (snd (process_video failing_env ''in.mp4'' ''out.mp4'' empty_disk))
       = [VideoProcessingError ''codec error'']" by code_simp
  show ?thesis
    using a b c t p l
      process_video_outcomes [OF a b c, of "''in.mp4''" "''out.mp4''" empty_disk]
    by (intro conjI) assumption+
qed

text \<open>
  Claim C4. For every source video, the resolution in the statistics of a video that was
  processed is made of the native width and height, each lowered by exactly one when odd
  and unchanged when even: a source of 639 by 480 gives \<open>638x480\<close>.
\<close>

theorem video_resolution_even:
  assumes "video_capture env = Inr cap"
    and "cap_width cap = Inr w" and "cap_height cap = Inr h"
    and "fst (process_video env inp outp s) = Inr (PVStats res rate)"
  shows "res = str_int (if even w then w else w - 1) @ ''x''
               @ str_int (if even h then h else h - 1)"
proof -
  obtain r c wr s1 where t: "process_video_try env inp outp s = (r, c, wr, s1)"
    by (metis prod_cases4)
  from process_video_result(3) [OF t assms(4)] process_video_try_stats [of env inp outp s _ c wr s1] t
  have "r = Inr (PVStats res rate)" by (cases r) auto
  with t process_video_try_stats [of env inp outp s "PVStats res rate" c wr s1] assms(1-3)
  show ?thesis by (auto simp: even_iff_mod_2_eq_zero)
qed

theorem video_resolution_even_witness:
  "video_capture sample_env = Inr sample_capture
   \<and> cap_width sample_capture = Inr 639 \<and> cap_height sample_capture = Inr 480
   \<and> fst (process_video sample_env ''in.mp4'' ''out.mp4'' empty_disk) = Inr (PVStats ''638x480'' 25)
   \<and> ''638x480'' = str_int (if even (639::int) then 639 else 639 - 1) @ ''x''
               @ str_int (if even (480::int) then 480 else 480 - 1)"
proof -
  have a: "video_capture sample_env = Inr sample_capture" by (simp add: sample_env_def)
  have b: "cap_width sample_capture = Inr 639" by (simp add: sample_capture_def)
  have c: "cap_height sample_capture = Inr 480" by (simp add: sample_capture_def)
  have d: "fst (process_video sample_env ''in.mp4'' ''out.mp4'' empty_disk :: (exn + int video_stats) \<times> (string, string) state) = Inr (PVStats ''638x480'' 25)"
    by code_simp
  show ?thesis
    using a b c d video_resolution_even [OF a b c d] by simp
qed

section \<open>The request handler: processing\<close>

text \<open>How the outcome of a pipeline becomes the outcome of the inner \<open>try\<close> block.\<close>

lemma video_branch_failure:
  assumes "fst (process_video env up rp s) = Inr PVFalse \<or> fst (process_video env up rp s) = Inl e"
  shows "\<exists>e'. fst (video_branch env fname rfn up rp s) = Inl e'"
  using assms
  by (cases "process_video env up rp s") (auto simp: video_branch_def stats_resolution_def)

lemma process_try_image:
  "fst (process_try env ''image'' fname rfn up rp s) =
     (case fst (image_branch env fname rfn up rp s) of
        Inl e \<Rightarrow> Inl e | Inr d \<Rightarrow> Inr (d, 200))"
  by (cases "image_branch env fname rfn up rp s") (simp add: process_try_def split: sum.splits)

lemma process_try_video:
  assumes "mode \<noteq> ''image''"
  shows "fst (process_try env mode fname rfn up rp s) =
     (case fst (video_branch env fname rfn up rp s) of
        Inl e \<Rightarrow> Inl e | Inr d \<Rightarrow> Inr (d, 200))"
  using assms
  by (cases "video_branch env fname rfn up rp s") (simp add: process_try_def split: sum.splits)

text \<open>
  Claim C2 says that every failure of the processing, the failed opening of the codec
  among them, is answered with 500 and leaves no result file. A video writer that does not
  open does not raise, and the code never asks it whether it is opened: the upload is
  answered with 200 and without an \<open>error\<close> field, and there is no result file. And when
  \<open>os.remove\<close> raises in the cleanup, the answer is 500 and the partly written result file
  stays on disk.
\<close>

theorem processing_failure_counterexample:
  "video_writer unopened_env = Inr False
   \<and> status (fst (upload_file unopened_env video_request empty_disk)) = 200
   \<and> jget ''error'' (body (fst (upload_file unopened_env video_request empty_disk))) = None
   \<and> fs (snd (upload_file unopened_env video_request empty_disk))
        ''static/results/result_0b5e.mp4'' = None
   \<and> status (fst (upload_file locked_env video_request empty_disk)) = 500
   \<and> fs (snd (upload_file locked_env video_request empty_disk))
        ''static/results/result_0b5e.mp4'' = Some (VideoFile [''annotated''])"
  by code_simp

text \<open>
  Claim C2, amended. For every upload request that reaches the processing (it has a file
  part, passes the validator and is stored) and whose processing raises an exception, the
  handler answers with status 500 and a body with an \<open>error\<close> field, and when \<open>os.remove\<close>
  does not fail, no file is left at the result path. The processing raises when the image
  branch raises (the detection call, the plot, the write of the image, the lookup of a
  class name), and when the video pipeline returns \<open>False\<close>, which it does when anything in
  its \<open>try\<close> block raises (opening the capture or the writer, reading a frame, detecting,
  plotting or writing in the middle of the video), or raises itself.
\<close>

theorem processing_failure_500:
  assumes "files req ''file'' = Some file"
    and "mode = dict_get (form req) ''mode'' ''image''"
    and "allowed_file (filename file) mode = Inr True"
    and "index (rsplit1 CHR ''.'' (filename file)) 1 = Inr suffix"
    and "file_save env = None"
    and "fname = uuid4 env @ ''.'' @ lower suffix"
    and "upload_path = path_join UPLOAD_FOLDER fname"
    and "result_path = path_join RESULT_FOLDER (''result_'' @ fname)"
    and "s1 = write_file upload_path (RawFile (payload file)) s"
    and "(mode = ''image''
            \<and> fst (image_branch env fname (''result_'' @ fname) upload_path result_path s1) = Inl e)
         \<or> (mode \<noteq> ''image''
            \<and> (fst (process_video env upload_path result_path s1) = Inr PVFalse
               \<or> fst (process_video env upload_path result_path s1) = Inl e))"
  shows "status (fst (upload_file env req s)) = 500
         \<and> (jget ''error'' (body (fst (upload_file env req s))) = Some (JStr ''Error processing file'')
            \<or> jget ''error'' (body (fst (upload_file env req s)))
                = Some (JStr ''Internal server error''))
         \<and> (remove_result env = None \<longrightarrow> fs (snd (upload_file env req s)) result_path = None)"
proof -
  have u: "upload_file env req s = outer_except
             (process env mode fname (''result_'' @ fname) upload_path result_path s1)"
    using upload_file_stored [of req "file" suffix env s] assms(1-9) by simp
  have "\<exists>e'. fst (process_try env mode fname (''result_'' @ fname) upload_path result_path s1) = Inl e'"
  proof (cases "mode = ''image''")
    case True
    with assms(10) show ?thesis by (simp add: process_try_image)
  next
    case False
    with assms(10)
    have "fst (process_video env upload_path result_path s1) = Inr PVFalse
          \<or> fst (process_video env upload_path result_path s1) = Inl e" by simp
    from video_branch_failure [OF this, of fname "''result_'' @ fname"] False
    show ?thesis by (auto simp: process_try_video)
  qed
  then obtain e' where
    "fst (process_try env mode fname (''result_'' @ fname) upload_path result_path s1) = Inl e'" ..
  from process_failure [OF this] show ?thesis
    unfolding u status_def body_def by blast
qed

theorem processing_failure_500_witness:
  "files video_request ''file'' = Some \<lparr>filename = ''clip.MP4'', payload = ''video bytes''\<rparr>
   \<and> allowed_file ''clip.MP4'' ''video'' = Inr True
   \<and> file_save failing_env = None
   \<and> remove_result failing_env = None
   \<and> fst (process_video failing_env ''static/uploads/0b5e.mp4'' ''static/results/result_0b5e.mp4''
        (write_file ''static/uploads/0b5e.mp4'' (RawFile ''video bytes'') empty_disk)) = Inr PVFalse
   \<and> fs (snd (process_video failing_env ''static/uploads/0b5e.mp4'' ''static/results/result_0b5e.mp4''
        (write_file ''static/uploads/0b5e.mp4'' (RawFile ''video bytes'') empty_disk)))
        ''static/results/result_0b5e.mp4'' = Some (VideoFile [''annotated''])
   \<and> status (fst (upload_file failing_env video_request empty_disk)) = 500
   \<and> jget ''error'' (body (fst (upload_file failing_env video_request empty_disk)))
       = Some (JStr ''Error processing file'')
   \<and> fs (snd (upload_file failing_env video_request empty_disk)) ''static/results/result_0b5e.mp4'' = None"
proof -
  let ?part = "\<lparr>filename = ''clip.MP4'', payload = ''video bytes''\<rparr>"
  have f: "files video_request ''file'' = Some ?part" by (simp add: video_request_def)
  have m: "''video'' = dict_get (form video_request) ''mode'' ''image''"
    by (simp add: video_request_def dict_get_def)
  have a: "allowed_file (filename ?part) ''video'' = Inr True" by code_simp
  have i: "index (rsplit1 CHR ''.'' (filename ?part)) 1 = Inr ''MP4''" by code_simp
  have sv: "file_save failing_env = None" by (simp add: failing_env_def sample_env_def)
  have rm: "remove_result failing_env = None" by (simp add: failing_env_def sample_env_def)
  have n: "''0b5e.mp4'' = uuid4 failing_env @ ''.'' @ lower ''MP4''" by code_simp
  have up: "''static/uploads/0b5e.mp4'' = path_join UPLOAD_FOLDER ''0b5e.mp4''" by code_simp
  have rp: "''static/results/result_0b5e.mp4'' = path_join RESULT_FOLDER (''result_'' @ ''0b5e.mp4'')"
    by code_simp
  have pv: "fst (process_video failing_env ''static/uploads/0b5e.mp4'' ''static/results/result_0b5e.mp4''
        (write_file ''static/uploads/0b5e.mp4'' (RawFile ''video bytes'') empty_disk)) = Inr PVFalse"
    by code_simp
  have partial: "fs (snd (process_video failing_env ''static/uploads/0b5e.mp4'' ''static/results/result_0b5e.mp4''
        (write_file ''static/uploads/0b5e.mp4'' (RawFile ''video bytes'') empty_disk)))
        ''static/results/result_0b5e.mp4'' = Some (VideoFile [''annotated''])"
    by code_simp
  have msg: "jget ''error'' (body (fst (upload_file failing_env video_request empty_disk)))
       = Some (JStr ''Error processing file'')" by code_simp
  have fl: "(''video'' = ''image''
            \<and> fst (image_branch failing_env ''0b5e.mp4'' (''result_'' @ ''0b5e.mp4'')
                 ''static/uploads/0b5e.mp4'' ''static/results/result_0b5e.mp4''
                 (write_file ''static/uploads/0b5e.mp4'' (RawFile (payload ?part)) empty_disk)) = Inl IndexError)
         \<or> (''video'' \<noteq> ''image''
            \<and> (fst (process_video failing_env ''static/uploads/0b5e.mp4'' ''static/results/result_0b5e.mp4''
                 (write_file ''static/uploads/0b5e.mp4'' (RawFile (payload ?part)) empty_disk)) = Inr PVFalse
               \<or> fst (process_video failing_env ''static/uploads/0b5e.mp4'' ''static/results/result_0b5e.mp4''
                 (write_file ''static/uploads/0b5e.mp4'' (RawFile (payload ?part)) empty_disk)) = Inl IndexError))"
    using pv by simp
  show ?thesis
    using f a sv rm pv partial msg processing_failure_500 [OF f m a i sv n up rp refl fl] by simp
qed

section \<open>The request handler: successful uploads\<close>

lemma collect_detected_names:
  assumes "collect_detected nms cs acc = Inr objs" and "c \<in> set cs"
  shows "nms c \<noteq> None"
  using assms
  by (induction cs arbitrary: acc) (auto split: option.splits)

lemma image_branch_success:
  assumes "fst (image_branch env fname rfn up rp s) = Inr d"
    and "model_path env = Inr results" and "index results 0 = Inr r"
  shows "\<exists>objs. collect_detected (names r) (boxes r) [] = Inr objs
           \<and> jget ''stats'' d = Some (JObj
                 [(''inference_time'', JNum (speed_inference r)),
                  (''resolution'',
                     JStr (str_int (snd (orig_shape r)) @ ''x'' @ str_int (fst (orig_shape r)))),
                  (''detected_objects'', JList (map JStr objs))])"
  using assms unfolding image_branch_def
  by (auto simp: Let_def split: sum.splits)

lemma video_branch_success:
  assumes "fst (video_branch env fname rfn up rp s) = Inr d"
  shows "\<exists>res rate. jget ''stats'' d = Some (JObj
                 [(''resolution'', JStr res), (''fps'', JNum rate),
                  (''detected_objects'', JList [])])"
  using assms unfolding video_branch_def
  by (auto split: sum.splits prod.splits)

text \<open>An answer of 200 comes from a block of the inner \<open>try\<close> statement that returned.\<close>

lemma handler_image_200:
  assumes "snd (fst (outer_except (process env ''image'' fname rfn up rp s))) = 200"
  shows "\<exists>d. fst (image_branch env fname rfn up rp s) = Inr d
             \<and> fst (outer_except (process env ''image'' fname rfn up rp s)) = (d, 200)"
proof -
  from outer_except_200 [OF assms] obtain d
    where p: "fst (process env ''image'' fname rfn up rp s) = Inr (d, 200)"
      and o: "fst (outer_except (process env ''image'' fname rfn up rp s)) = (d, 200)"
    by blast
  from process_200 [OF p] have "fst (image_branch env fname rfn up rp s) = Inr d"
    by (cases "fst (image_branch env fname rfn up rp s)") (auto simp: process_try_image)
  with o show ?thesis by blast
qed

lemma handler_video_200:
  assumes "mode \<noteq> ''image''"
    and "snd (fst (outer_except (process env mode fname rfn up rp s))) = 200"
  shows "\<exists>d. fst (video_branch env fname rfn up rp s) = Inr d
             \<and> fst (outer_except (process env mode fname rfn up rp s)) = (d, 200)"
proof -
  from outer_except_200 [OF assms(2)] obtain d
    where p: "fst (process env mode fname rfn up rp s) = Inr (d, 200)"
      and o: "fst (outer_except (process env mode fname rfn up rp s)) = (d, 200)"
    by blast
  from process_200 [OF p] have "fst (video_branch env fname rfn up rp s) = Inr d"
    by (cases "fst (video_branch env fname rfn up rp s)")
       (auto simp: process_try_video [OF assms(1)])
  with o show ?thesis by blast
qed

text \<open>
  Claim C5. For every upload in image mode that is answered with 200, the field
  \<open>detected_objects\<close> of the statistics lists the class names of the detected boxes, each
  name once: the list has no repetition, its elements are exactly the names of the boxes,
  and it is no longer than the number of boxes.
\<close>

theorem image_detected_objects_unique:
  assumes "files req ''file'' = Some file"
    and "dict_get (form req) ''mode'' ''image'' = ''image''"
    and "allowed_file (filename file) ''image'' = Inr True"
    and "index (rsplit1 CHR ''.'' (filename file)) 1 = Inr suffix"
    and "file_save env = None"
    and "model_path env = Inr results" and "index results 0 = Inr r"
    and "status (fst (upload_file env req s)) = 200"
  shows "\<exists>objs. Option.bind (jget ''stats'' (body (fst (upload_file env req s))))
                  (jget ''detected_objects'') = Some (JList (map JStr objs))
           \<and> distinct objs
           \<and> Some ` set objs = names r ` set (boxes r)
           \<and> length objs \<le> length (boxes r)"
proof -
  let ?fname = "uuid4 env @ ''.'' @ lower suffix"
  let ?up = "path_join UPLOAD_FOLDER ?fname"
  let ?rp = "path_join RESULT_FOLDER (''result_'' @ ?fname)"
  let ?s1 = "write_file ?up (RawFile (payload file)) s"
  have u: "upload_file env req s =
             outer_except (process env ''image'' ?fname (''result_'' @ ?fname) ?up ?rp ?s1)"
    using upload_file_stored [of req "file" suffix env s] assms(1-5) by simp
  have "snd (fst (outer_except
          (process env ''image'' ?fname (''result_'' @ ?fname) ?up ?rp ?s1))) = 200"
    using assms(8) u by (simp only: status_def)
  from handler_image_200 [OF this] u
  obtain d where d: "fst (image_branch env ?fname (''result_'' @ ?fname) ?up ?rp ?s1) = Inr d"
    and b: "fst (upload_file env req s) = (d, 200)"
    by auto
  from image_branch_success [OF d assms(6,7)] obtain objs
    where c: "collect_detected (names r) (boxes r) [] = Inr objs"
      and st: "jget ''stats'' d = Some (JObj
                 [(''inference_time'', JNum (speed_inference r)),
                  (''resolution'',
                     JStr (str_int (snd (orig_shape r)) @ ''x'' @ str_int (fst (orig_shape r)))),
                  (''detected_objects'', JList (map JStr objs))])"
    by blast
  from collect_detected_set [OF c] have p: "distinct objs"
    "set objs = {n. \<exists>c \<in> set (boxes r). names r c = Some n}"
    "length objs \<le> length (boxes r)" by simp_all
  have named: "names r c \<noteq> None" if "c \<in> set (boxes r)" for c
    using c that by (rule collect_detected_names)
  have "Some ` set objs = names r ` set (boxes r)"
  proof (intro set_eqI iffI)
    fix x assume "x \<in> Some ` set objs"
    then obtain n where "x = Some n" and "n \<in> set objs" by blast
    with p(2) obtain c where "c \<in> set (boxes r)" and "names r c = Some n" by blast
    with \<open>x = Some n\<close> show "x \<in> names r ` set (boxes r)" by force
  next
    fix x assume "x \<in> names r ` set (boxes r)"
    then obtain c where cb: "c \<in> set (boxes r)" and x: "x = names r c" by blast
    from named [OF cb] obtain n where "names r c = Some n" by blast
    with cb p(2) x show "x \<in> Some ` set objs" by blast
  qed
  with p(1,3) st b show ?thesis by (auto simp: body_def)
qed

theorem image_detected_objects_unique_witness:
  "files image_request ''file'' = Some \<lparr>filename = ''photo.PNG'', payload = ''image bytes''\<rparr>
   \<and> dict_get (form image_request) ''mode'' ''image'' = ''image''
   \<and> allowed_file ''photo.PNG'' ''image'' = Inr True
   \<and> file_save sample_env = None
   \<and> model_path sample_env = Inr [sample_result]
   \<and> index [sample_result] 0 = Inr sample_result
   \<and> boxes sample_result = [0, 1, 0]
   \<and> status (fst (upload_file sample_env image_request empty_disk)) = 200
   \<and> Option.bind (jget ''stats'' (body (fst (upload_file sample_env image_request empty_disk))))
         (jget ''detected_objects'') = Some (JList [JStr ''dog'', JStr ''cat''])
   \<and> (\<exists>objs. Option.bind (jget ''stats'' (body (fst (upload_file sample_env image_request empty_disk))))
                  (jget ''detected_objects'') = Some (JList (map JStr objs))
           \<and> distinct objs
           \<and> Some ` set objs = names sample_result ` set (boxes sample_result)
           \<and> length objs \<le> length (boxes sample_result))"
proof -
  let ?part = "\<lparr>filename = ''photo.PNG'', payload = ''image bytes''\<rparr>"
  have f: "files image_request ''file'' = Some ?part" by (simp add: image_request_def)
  have m: "dict_get (form image_request) ''mode'' ''image'' = ''image''"
    by (simp add: image_request_def dict_get_def)
  have a: "allowed_file (filename ?part) ''image'' = Inr True" by code_simp
  have i: "index (rsplit1 CHR ''.'' (filename ?part)) 1 = Inr ''PNG''" by code_simp
  have sv: "file_save sample_env = None" by (simp add: sample_env_def)
  have mp: "model_path sample_env = Inr [sample_result]" by (simp add: sample_env_def)
  have ix: "index [sample_result] 0 = Inr sample_result" by (simp add: index_def)
  have bx: "boxes sample_result = [0, 1, 0]" by (simp add: sample_result_def)
  have st: "status (fst (upload_file sample_env image_request empty_disk)) = 200" by code_simp
  have ob: "Option.bind (jget ''stats'' (body (fst (upload_file sample_env image_request empty_disk))))
         (jget ''detected_objects'') = Some (JList [JStr ''dog'', JStr ''cat''])" by code_simp
  show ?thesis
    using f m a sv mp ix bx st ob image_detected_objects_unique [OF f m a i sv mp ix st]
    by simp
qed

text \<open>
  Claim C6. For every upload in another mode than image (the validator leaves only the video
  mode) that is answered with 200, the field \<open>detected_objects\<close> of the statistics is the
  empty list, whatever the model detects in the frames.
\<close>

theorem video_detected_objects_empty:
  assumes "files req ''file'' = Some file"
    and "mode = dict_get (form req) ''mode'' ''image''"
    and "mode \<noteq> ''image''"
    and "allowed_file (filename file) mode = Inr True"
    and "index (rsplit1 CHR ''.'' (filename file)) 1 = Inr suffix"
    and "file_save env = None"
    and "status (fst (upload_file env req s)) = 200"
  shows "Option.bind (jget ''stats'' (body (fst (upload_file env req s))))
           (jget ''detected_objects'') = Some (JList [])"
proof -
  let ?fname = "uuid4 env @ ''.'' @ lower suffix"
  let ?up = "path_join UPLOAD_FOLDER ?fname"
  let ?rp = "path_join RESULT_FOLDER (''result_'' @ ?fname)"
  let ?s1 = "write_file ?up (RawFile (payload file)) s"
  have u: "upload_file env req s =
             outer_except (process env mode ?fname (''result_'' @ ?fname) ?up ?rp ?s1)"
    using upload_file_stored [of req "file" suffix env s] assms(1,2,4-6) by simp
  have "snd (fst (outer_except
          (process env mode ?fname (''result_'' @ ?fname) ?up ?rp ?s1))) = 200"
    using assms(7) u by (simp only: status_def)
  from handler_video_200 [OF assms(3) this] u
  obtain d where d: "fst (video_branch env ?fname (''result_'' @ ?fname) ?up ?rp ?s1) = Inr d"
    and b: "fst (upload_file env req s) = (d, 200)"
    by auto
  from video_branch_success [OF d] b show ?thesis by (auto simp: body_def)
qed

theorem video_detected_objects_empty_witness:
  "files video_request ''file'' = Some \<lparr>filename = ''clip.MP4'', payload = ''video bytes''\<rparr>
   \<and> dict_get (form video_request) ''mode'' ''image'' = ''video''
   \<and> ''video'' \<noteq> ''image''
   \<and> allowed_file ''clip.MP4'' ''video'' = Inr True
   \<and> file_save sample_env = None
   \<and> status (fst (upload_file sample_env video_request empty_disk)) = 200
   \<and> Option.bind (jget ''stats'' (body (fst (upload_file sample_env video_request empty_disk))))
         (jget ''detected_objects'') = Some (JList [])"
proof -
  let ?part = "\<lparr>filename = ''clip.MP4'', payload = ''video bytes''\<rparr>"
  have f: "files video_request ''file'' = Some ?part" by (simp add: video_request_def)
  have m: "dict_get (form video_request) ''mode'' ''image'' = ''video''"
    by (simp add: video_request_def dict_get_def)
  have ne: "''video'' \<noteq> ''image''" by simp
  have a: "allowed_file (filename ?part) ''video'' = Inr True" by code_simp
  have i: "index (rsplit1 CHR ''.'' (filename ?part)) 1 = Inr ''MP4''" by code_simp
  have sv: "file_save sample_env = None" by (simp add: sample_env_def)
  have st: "status (fst (upload_file sample_env video_request empty_disk)) = 200" by code_simp
  show ?thesis
    using f m a sv st video_detected_objects_empty [OF f m [symmetric] ne a i sv st] by simp
qed

text \<open>
  Claim C9. For every upload request that passes the validator and is stored, the stored
  upload, named by the fresh identifier and the lowered extension, holds the uploaded bytes
  when the handler answers, whether the processing succeeded or failed. So the handler
  never changes it and never deletes it; the cleanup of a failed processing removes the
  result file only. This holds whatever the cleanup calls do.
\<close>

theorem stored_upload_kept:
  assumes "files req ''file'' = Some file"
    and "mode = dict_get (form req) ''mode'' ''image''"
    and "allowed_file (filename file) mode = Inr True"
    and "index (rsplit1 CHR ''.'' (filename file)) 1 = Inr suffix"
    and "file_save env = None"
    and "upload_path = path_join UPLOAD_FOLDER (uuid4 env @ ''.'' @ lower suffix)"
  shows "fs (snd (upload_file env req s)) upload_path = Some (RawFile (payload file))"
proof -
  let ?fname = "uuid4 env @ ''.'' @ lower suffix"
  let ?rp = "path_join RESULT_FOLDER (''result_'' @ ?fname)"
  let ?s1 = "write_file upload_path (RawFile (payload file)) s"
  have u: "upload_file env req s =
             outer_except (process env mode ?fname (''result_'' @ ?fname) upload_path ?rp ?s1)"
    using upload_file_stored [of req "file" suffix env s] assms by simp
  have ne: "upload_path \<noteq> ?rp"
    unfolding assms(6) by (rule paths_distinct)
  have "fs (snd (process env mode ?fname (''result_'' @ ?fname) upload_path ?rp ?s1)) upload_path
          = fs ?s1 upload_path"
    using ne by (rule process_fs)
  then have "fs (snd (upload_file env req s)) upload_path = fs ?s1 upload_path"
    unfolding u by (simp add: outer_except_fs)
  then show ?thesis by (simp add: write_file_def)
qed

theorem stored_upload_kept_witness:
  "files video_request ''file'' = Some \<lparr>filename = ''clip.MP4'', payload = ''video bytes''\<rparr>
   \<and> allowed_file ''clip.MP4'' ''video'' = Inr True
   \<and> file_save failing_env = None \<and> file_save sample_env = None
   \<and> status (fst (upload_file failing_env video_request empty_disk)) = 500
   \<and> fs (snd (upload_file failing_env video_request empty_disk)) ''static/uploads/0b5e.mp4''
       = Some (RawFile ''video bytes'')
   \<and> status (fst (upload_file sample_env video_request empty_disk)) = 200
   \<and> fs (snd (upload_file sample_env video_request empty_disk)) ''static/uploads/0b5e.mp4''
       = Some (RawFile ''video bytes'')"
proof -
  let ?part = "\<lparr>filename = ''clip.MP4'', payload = ''video bytes''\<rparr>"
  have f: "files video_request ''file'' = Some ?part" by (simp add: video_request_def)
  have m: "''video'' = dict_get (form video_request) ''mode'' ''image''"
    by (simp add: video_request_def dict_get_def)
  have a: "allowed_file (filename ?part) ''video'' = Inr True" by code_simp
  have i: "index (rsplit1 CHR ''.'' (filename ?part)) 1 = Inr ''MP4''" by code_simp
  have sv: "file_save failing_env = None" by (simp add: failing_env_def sample_env_def)
  have sv': "file_save sample_env = None" by (simp add: sample_env_def)
  have up: "''static/uploads/0b5e.mp4'' = path_join UPLOAD_FOLDER (uuid4 failing_env @ ''.'' @ lower ''MP4'')"
    by code_simp
  have up': "''static/uploads/0b5e.mp4'' = path_join UPLOAD_FOLDER (uuid4 sample_env @ ''.'' @ lower ''MP4'')"
    by code_simp
  have st: "status (fst (upload_file failing_env video_request empty_disk)) = 500" by code_simp
  have st': "status (fst (upload_file sample_env video_request empty_disk)) = 200" by code_simp
  show ?thesis
    using f a sv sv' st st'
      stored_upload_kept [OF f m a i sv up, of empty_disk]
      stored_upload_kept [OF f m a i sv' up', of empty_disk]
    by simp
qed

section \<open>The request handler: the unchecked write and the unknown mode\<close>

lemma image_branch_run:
  assumes "model_path env = Inr results" and "index results 0 = Inr r"
    and "plot r = Inr im_array"
    and "collect_detected (names r) (boxes r) [] = Inr objs"
    and "imwrite env = Inr written"
  shows "image_branch env fname rfn up rp s =
           (Inr (JObj
             [(''type'', JStr ''image''),
              (''original'', JStr (''/static/uploads/'' @ fname)),
              (''result'', JStr (''/static/results/'' @ rfn)),
              (''stats'', JObj
                 [(''inference_time'', JNum (speed_inference r)),
                  (''resolution'',
                     JStr (str_int (snd (orig_shape r)) @ ''x'' @ str_int (fst (orig_shape r)))),
                  (''detected_objects'', JList (map JStr objs))])]),
            if written then write_file rp (ImageFile im_array) s else s)"
  using assms by (simp add: image_branch_def)

lemma process_image_run:
  assumes "image_branch env fname rfn up rp s = (Inr d, s1)"
  shows "outer_except (process env ''image'' fname rfn up rp s) =
           (case destroy_windows env of
              None \<Rightarrow> ((d, 200), s1)
            | Some e \<Rightarrow> unexpected_error e s1)"
  using assms by (simp add: process_def process_try_def outer_except_def split: option.splits)

text \<open>
  Claim C10. In image mode the handler does not look at what \<open>cv2.imwrite\<close> returns: when
  it returns \<open>False\<close> and nothing else fails, the answer is 200 with the \<open>result\<close> path in
  the body although no file is at the result path, and the answer is the one given when
  the write succeeds. Nothing else fails when \<open>cv2.destroyAllWindows\<close> returns normally in
  the \<open>finally\<close> block of the handler; whether it does or not, no file is at the result
  path and the answer does not depend on what \<open>cv2.imwrite\<close> returned.
\<close>

theorem image_write_unchecked:
  assumes "files req ''file'' = Some file"
    and "dict_get (form req) ''mode'' ''image'' = ''image''"
    and "allowed_file (filename file) ''image'' = Inr True"
    and "index (rsplit1 CHR ''.'' (filename file)) 1 = Inr suffix"
    and "file_save env = None"
    and "fname = uuid4 env @ ''.'' @ lower suffix"
    and "result_path = path_join RESULT_FOLDER (''result_'' @ fname)"
    and "model_path env = Inr results" and "index results 0 = Inr r"
    and "plot r = Inr im_array"
    and "collect_detected (names r) (boxes r) [] = Inr objs"
    and "imwrite env = Inr False"
    and "fs s result_path = None"
  shows "(destroy_windows env = None \<longrightarrow>
            status (fst (upload_file env req s)) = 200
            \<and> jget ''result'' (body (fst (upload_file env req s)))
                = Some (JStr (''/static/results/'' @ ''result_'' @ fname)))
         \<and> fs (snd (upload_file env req s)) result_path = None
         \<and> fst (upload_file (env\<lparr>imwrite := Inr True\<rparr>) req s) = fst (upload_file env req s)"
proof -
  let ?up = "path_join UPLOAD_FOLDER fname"
  let ?s1 = "write_file ?up (RawFile (payload file)) s"
  let ?env' = "env\<lparr>imwrite := Inr True\<rparr>"
  let ?d = "JObj
             [(''type'', JStr ''image''),
              (''original'', JStr (''/static/uploads/'' @ fname)),
              (''result'', JStr (''/static/results/'' @ ''result_'' @ fname)),
              (''stats'', JObj
                 [(''inference_time'', JNum (speed_inference r)),
                  (''resolution'',
                     JStr (str_int (snd (orig_shape r)) @ ''x'' @ str_int (fst (orig_shape r)))),
                  (''detected_objects'', JList (map JStr objs))])]"
  have u: "upload_file env req s =
             outer_except (process env ''image'' fname (''result_'' @ fname) ?up result_path ?s1)"
    using upload_file_stored [of req "file" suffix env s] assms(1-7) by simp
  have u': "upload_file ?env' req s =
              outer_except (process ?env' ''image'' fname (''result_'' @ fname) ?up result_path ?s1)"
    using upload_file_stored [of req "file" suffix ?env' s] assms(1-7) by simp
  have ne: "result_path \<noteq> ?up"
    unfolding assms(6,7) using paths_distinct [of "uuid4 env" "lower suffix"] by simp
  note run = image_branch_run [OF _ assms(9,10,11), where fname = fname
      and rfn = "''result_'' @ fname" and up = ?up and rp = result_path and s = ?s1]
  have b: "image_branch env fname (''result_'' @ fname) ?up result_path ?s1 = (Inr ?d, ?s1)"
    using run [of env False] assms(8,12) by simp
  have b': "image_branch ?env' fname (''result_'' @ fname) ?up result_path ?s1
              = (Inr ?d, write_file result_path (ImageFile im_array) ?s1)"
    using run [of ?env' True] assms(8) by simp
  have p: "upload_file env req s =
             (case destroy_windows env of
                None \<Rightarrow> ((?d, 200), ?s1) | Some e \<Rightarrow> unexpected_error e ?s1)"
    unfolding u by (rule process_image_run [OF b])
  have p': "upload_file ?env' req s =
             (case destroy_windows env of
                None \<Rightarrow> ((?d, 200), write_file result_path (ImageFile im_array) ?s1)
              | Some e \<Rightarrow> unexpected_error e (write_file result_path (ImageFile im_array) ?s1))"
    unfolding u' using process_image_run [OF b'] by simp
  have n: "fs ?s1 result_path = None"
    using ne assms(13) by (simp add: write_file_def)
  show ?thesis
  proof (cases "destroy_windows env")
    case None
    with p p' n show ?thesis by (simp add: status_def body_def)
  next
    case (Some e)
    with p p' n show ?thesis by (simp add: unexpected_error_response)
  qed
qed

theorem image_write_unchecked_witness:
  "files image_request ''file'' = Some \<lparr>filename = ''photo.PNG'', payload = ''image bytes''\<rparr>
   \<and> dict_get (form image_request) ''mode'' ''image'' = ''image''
   \<and> allowed_file ''photo.PNG'' ''image'' = Inr True
   \<and> file_save sample_env = None
   \<and> model_path sample_env = Inr [sample_result]
   \<and> plot sample_result = Inr ''annotated''
   \<and> collect_detected (names sample_result) (boxes sample_result) [] = Inr [''dog'', ''cat'']
   \<and> imwrite sample_env = Inr False
   \<and> fs empty_disk ''static/results/result_0b5e.png'' = None
   \<and> destroy_windows sample_env = None
   \<and> status (fst (upload_file sample_env image_request empty_disk)) = 200
   \<and> jget ''result'' (body (fst (upload_file sample_env image_request empty_disk)))
       = Some (JStr ''/static/results/result_0b5e.png'')
   \<and> fs (snd (upload_file sample_env image_request empty_disk)) ''static/results/result_0b5e.png''
       = None"
proof -
  let ?part = "\<lparr>filename = ''photo.PNG'', payload = ''image bytes''\<rparr>"
  have f: "files image_request ''file'' = Some ?part" by (simp add: image_request_def)
  have m: "dict_get (form image_request) ''mode'' ''image'' = ''image''"
    by (simp add: image_request_def dict_get_def)
  have a: "allowed_file (filename ?part) ''image'' = Inr True" by code_simp
  have i: "index (rsplit1 CHR ''.'' (filename ?part)) 1 = Inr ''PNG''" by code_simp
  have sv: "file_save sample_env = None" by (simp add: sample_env_def)
  have n: "''0b5e.png'' = uuid4 sample_env @ ''.'' @ lower ''PNG''" by code_simp
  have rp: "''static/results/result_0b5e.png'' = path_join RESULT_FOLDER (''result_'' @ ''0b5e.png'')"
    by code_simp
  have mp: "model_path sample_env = Inr [sample_result]" by (simp add: sample_env_def)
  have ix: "index [sample_result] 0 = Inr sample_result" by (simp add: index_def)
  have pl: "plot sample_result = Inr ''annotated''" by (simp add: sample_result_def)
  have cd: "collect_detected (names sample_result) (boxes sample_result) [] = Inr [''dog'', ''cat'']"
    by code_simp
  have iw: "imwrite sample_env = Inr False" by (simp add: sample_env_def)
  have e: "fs empty_disk ''static/results/result_0b5e.png'' = None" by (simp add: empty_disk_def)
  have dw: "destroy_windows sample_env = None" by (simp add: sample_env_def)
  show ?thesis
    using f m a sv mp pl cd iw e dw image_write_unchecked [OF f m a i sv n rp mp ix pl cd iw e]
    by simp
qed

text \<open>
  Claim C3 says that a request whose mode is not a recognised one is answered with 400.
  For the mode \<open>audio\<close> and the filename \<open>a.png\<close> the validator raises \<open>KeyError\<close>, which
  the outermost handler answers with 500 and \<open>Internal server error\<close>; with the same mode
  and a filename without a dot the answer is 400.
\<close>

theorem unknown_mode_internal_error:
  "allowed_file ''a.png'' ''audio'' = Inl (KeyError (repr_str ''audio''))
   \<and> files audio_request ''file'' = Some \<lparr>filename = ''a.png'', payload = ''image bytes''\<rparr>
   \<and> form audio_request ''mode'' = Some ''audio''
   \<and> fst (upload_file sample_env audio_request empty_disk)
       = (JObj [(''error'', JStr ''Internal server error'')], 500)
   \<and> status (fst (upload_file sample_env
         (audio_request\<lparr>files := [''file'' \<mapsto> \<lparr>filename = ''README'', payload = ''text''\<rparr>]\<rparr>)
         empty_disk)) = 400"
  by code_simp

end
